theory Spec2Isabelle
  imports Main
begin

section \<open>The repository pattern example: data model\<close>

text \<open>
  The Go package \<^verbatim>\<open>repository\<close> declares the entity \<^verbatim>\<open>User\<close>, the interface
  \<^verbatim>\<open>UserRepository\<close> and two implementations of it, \<^verbatim>\<open>MockUserRepository\<close> (a map in
  memory with an injectable error) and \<^verbatim>\<open>PostgresUserRepository\<close> (two SQL statements
  through \<^verbatim>\<open>database/sql\<close>); the package \<^verbatim>\<open>service\<close> declares \<^verbatim>\<open>UserService\<close>, which
  forwards to whichever implementation it holds.

  Users are passed and stored as pointers (\<^verbatim>\<open>*User\<close>), so the model keeps an explicit
  memory of \<^verbatim>\<open>User\<close> cells and every operation takes the state and returns it. Go's
  \<^verbatim>\<open>int\<close> is modelled as \<open>int\<close>: the code does no arithmetic on identifiers, it only
  copies them and uses them as map keys.
\<close>

subsection \<open>Users, pointers and memory\<close>

record User =
  ID :: int
  Name :: string
  Email :: string

type_synonym addr = nat

text \<open>A value of type \<^verbatim>\<open>*User\<close>: the nil pointer or the address of a cell.\<close>

datatype ptr = Nil | Ptr addr

text \<open>
  Go is memory safe: every non-nil \<^verbatim>\<open>*User\<close> points to a \<^verbatim>\<open>User\<close>. So the memory is a
  total function from addresses to cells, together with the next address that
  \<^verbatim>\<open>var user User\<close> will take when the variable escapes to the heap.
\<close>

record memory =
  cells :: "addr \<Rightarrow> User"
  next_free :: addr

text \<open>\<^verbatim>\<open>var user User\<close> for a variable whose address is returned: a fresh cell holding
  the zero value.\<close>

definition new_User :: "memory \<Rightarrow> addr \<times> memory" where
  "new_User h =
     (next_free h,
      h\<lparr>cells := (cells h)(next_free h := \<lparr>ID = 0, Name = [], Email = []\<rparr>),
        next_free := Suc (next_free h)\<rparr>)"

subsection \<open>Errors and panics\<close>

text \<open>
  A non-nil value of the interface \<^verbatim>\<open>error\<close>. \<open>ErrNoRows\<close> is the package-level value
  \<^verbatim>\<open>sql.ErrNoRows\<close>; \<open>errorString s\<close> is a value made by \<^verbatim>\<open>errors.New(s)\<close> anywhere else;
  \<open>wrapError s e\<close> is an error with message \<open>s\<close> whose \<^verbatim>\<open>Unwrap\<close> gives \<open>e\<close>. The nil error
  is \<open>None\<close> of \<open>error option\<close>.

  Go makes a new value at every call of \<^verbatim>\<open>errors.New\<close>: two of them are never \<^verbatim>\<open>==\<close>,
  whatever their text. The datatype keeps the text only, so it does not tell two such
  values apart. The code never compares two of them, and no statement below does: where
  two errors made by different calls of \<^verbatim>\<open>errors.New\<close> are set side by side, it is their
  text that is compared, through \<open>Error\<close>.
\<close>

datatype error =
    ErrNoRows
  | errorString string
  | wrapError string error

definition errors_New :: "string \<Rightarrow> error" where
  "errors_New s = errorString s"

text \<open>The method \<^verbatim>\<open>Error()\<close>: the text of an error, which is all a caller can read from a
  value made by \<^verbatim>\<open>errors.New\<close>.\<close>

fun Error :: "error \<Rightarrow> string" where
  "Error ErrNoRows = ''sql: no rows in result set''"
| "Error (errorString s) = s"
| "Error (wrapError s inner) = s"

text \<open>
  \<^verbatim>\<open>errors.Is(err, sql.ErrNoRows)\<close>, the one call of \<^verbatim>\<open>errors.Is\<close> in the code: \<open>err\<close> or an
  error on its \<^verbatim>\<open>Unwrap\<close> chain is the value \<^verbatim>\<open>sql.ErrNoRows\<close>. A value made by
  \<^verbatim>\<open>errors.New\<close> elsewhere is never that value, whatever its text.
\<close>

fun errors_Is_ErrNoRows :: "error \<Rightarrow> bool" where
  "errors_Is_ErrNoRows ErrNoRows = True"
| "errors_Is_ErrNoRows (errorString s) = False"
| "errors_Is_ErrNoRows (wrapError s inner) = errors_Is_ErrNoRows inner"

text \<open>The two run-time panics the code can raise: \<^verbatim>\<open>assignment to entry in nil map\<close> and
  \<^verbatim>\<open>invalid memory address or nil pointer dereference\<close>.\<close>

datatype panic = NilMapAssignment | NilDereference

text \<open>What a call does: it panics (\<open>Inl\<close>) or returns its results (\<open>Inr\<close>).\<close>

type_synonym 'a outcome = "panic + 'a"

subsection \<open>Maps\<close>

text \<open>A value of a Go map type: the nil map or a map object.\<close>

datatype ('k, 'v) gomap = NilMap | Map "'k \<rightharpoonup> 'v"

text \<open>\<^verbatim>\<open>v, exists := m[k]\<close>: reading a nil map finds nothing and does not panic.\<close>

fun map_index :: "('k, 'v) gomap \<Rightarrow> 'k \<Rightarrow> 'v option" where
  "map_index NilMap k = None"
| "map_index (Map f) k = f k"

fun map_keys :: "('k, 'v) gomap \<Rightarrow> 'k set" where
  "map_keys NilMap = {}"
| "map_keys (Map f) = dom f"

subsection \<open>The state a repository works on\<close>

text \<open>The memory of \<^verbatim>\<open>User\<close> cells and the struct the receiver points to.\<close>

record 'r world =
  mem :: memory
  recv :: 'r

section \<open>MockUserRepository\<close>

record MockUserRepository =
  Users :: "(int, ptr) gomap"
  Err :: "error option"

text \<open>
  \<^verbatim>\<open>func (m *MockUserRepository) FindUserByID(id int) (*User, error)\<close>; the parameter
  \<^verbatim>\<open>id\<close> is written \<open>uid\<close>.
\<close>

definition MockUserRepository_FindUserByID ::
  "int \<Rightarrow> MockUserRepository world \<Rightarrow> (ptr \<times> error option) outcome \<times> MockUserRepository world"
where
  "MockUserRepository_FindUserByID uid w =
     (case Err (recv w) of
        Some e \<Rightarrow> (Inr (Nil, Some e), w)
      | None \<Rightarrow>
          (case map_index (Users (recv w)) uid of
             None \<Rightarrow> (Inr (Nil, Some (errors_New ''user not found'')), w)
           | Some user \<Rightarrow> (Inr (user, None), w)))"

text \<open>
  \<^verbatim>\<open>func (m *MockUserRepository) SaveUser(user *User) error\<close>. In
  \<^verbatim>\<open>m.Users[user.ID] = user\<close> the operand \<^verbatim>\<open>user.ID\<close> is evaluated first (a nil \<^verbatim>\<open>user\<close>
  panics there), then the entry is assigned (a nil map panics there).
\<close>

definition MockUserRepository_SaveUser ::
  "ptr \<Rightarrow> MockUserRepository world \<Rightarrow> (error option) outcome \<times> MockUserRepository world"
where
  "MockUserRepository_SaveUser user w =
     (case Err (recv w) of
        Some e \<Rightarrow> (Inr (Some e), w)
      | None \<Rightarrow>
          (case user of
             Nil \<Rightarrow> (Inl NilDereference, w)
           | Ptr a \<Rightarrow>
               (case Users (recv w) of
                  NilMap \<Rightarrow> (Inl NilMapAssignment, w)
                | Map f \<Rightarrow>
                    (Inr None,
                     w\<lparr>recv := (recv w)\<lparr>Users := Map (f(ID (cells (mem w) a) \<mapsto> user))\<rparr>\<rparr>))))"

section \<open>PostgresUserRepository\<close>

subsection \<open>The database behind \<^verbatim>\<open>database/sql\<close>\<close>

text \<open>
  \<^verbatim>\<open>database/sql\<close>, the driver and the database server are not part of the repository.
  They are a parameter of the model: \<open>QueryRow\<close> takes the statement, its arguments and
  the state of the database, and gives the \<^verbatim>\<open>*sql.Row\<close> and the state after the statement;
  \<open>Scan1\<close> and \<open>Scan3\<close> are \<^verbatim>\<open>Row.Scan\<close> at the two destination lists the code uses
  (\<^verbatim>\<open>&user.ID\<close>, and \<^verbatim>\<open>&user.ID, &user.Name, &user.Email\<close>): from the row and what the
  destinations hold they give what the destinations hold afterwards and the error
  returned. Nothing is assumed about them.
\<close>

datatype arg = IntArg int | StrArg string

record ('db, 'row) database_sql =
  QueryRow :: "string \<Rightarrow> arg list \<Rightarrow> 'db \<Rightarrow> 'row \<times> 'db"
  Scan1 :: "'row \<Rightarrow> int \<Rightarrow> int \<times> error option"
  Scan3 :: "'row \<Rightarrow> int \<times> string \<times> string \<Rightarrow> (int \<times> string \<times> string) \<times> error option"

text \<open>The field \<^verbatim>\<open>DB *sql.DB\<close>: nil, or a handle to a database in some state.\<close>

record 'db PostgresUserRepository =
  DB :: "'db option"

definition NewPostgresUserRepository :: "'db option \<Rightarrow> 'db PostgresUserRepository" where
  "NewPostgresUserRepository db = \<lparr>DB = db\<rparr>"

definition select_query :: string where
  "select_query = ''SELECT id, name, email FROM users WHERE id = $1''"

definition insert_query :: string where
  "insert_query =
     ''\<newline>    INSERT INTO users (name, email) \<newline>    VALUES ($1, $2) \<newline>    RETURNING id''"

text \<open>
  \<^verbatim>\<open>func (r *PostgresUserRepository) FindUserByID(id int) (*User, error)\<close>. The local
  \<^verbatim>\<open>user\<close> is allocated first; calling \<^verbatim>\<open>QueryRow\<close> through a nil \<^verbatim>\<open>DB\<close> panics; the row
  is scanned into the three fields of \<^verbatim>\<open>user\<close>; an error that \<^verbatim>\<open>errors.Is\<close> finds to be
  \<^verbatim>\<open>sql.ErrNoRows\<close> becomes a new \<^verbatim>\<open>errors.New("user not found")\<close>, any other error is
  returned as it is, and without an error the address of \<^verbatim>\<open>user\<close> is returned.
\<close>

definition PostgresUserRepository_FindUserByID ::
  "('db, 'row) database_sql \<Rightarrow> int \<Rightarrow> 'db PostgresUserRepository world \<Rightarrow>
     (ptr \<times> error option) outcome \<times> 'db PostgresUserRepository world"
where
  "PostgresUserRepository_FindUserByID sql uid w =
     (let (a, h) = new_User (mem w) in
      case DB (recv w) of
        None \<Rightarrow> (Inl NilDereference, w\<lparr>mem := h\<rparr>)
      | Some d \<Rightarrow>
          (let (row, d') = QueryRow sql select_query [IntArg uid] d;
               user = cells h a;
               ((i, n, e), err) = Scan3 sql row (ID user, Name user, Email user);
               h' = h\<lparr>cells := (cells h)(a := \<lparr>ID = i, Name = n, Email = e\<rparr>)\<rparr>;
               w' = \<lparr>mem = h', recv = (recv w)\<lparr>DB := Some d'\<rparr>\<rparr>
           in case err of
                Some er \<Rightarrow>
                  if errors_Is_ErrNoRows er
                  then (Inr (Nil, Some (errors_New ''user not found'')), w')
                  else (Inr (Nil, Some er), w')
              | None \<Rightarrow> (Inr (Ptr a, None), w')))"

text \<open>
  \<^verbatim>\<open>func (r *PostgresUserRepository) SaveUser(user *User) error\<close>. The arguments
  \<^verbatim>\<open>user.Name\<close> and \<^verbatim>\<open>user.Email\<close> are evaluated before the call (a nil \<^verbatim>\<open>user\<close> panics
  there), then \<^verbatim>\<open>QueryRow\<close> is called (a nil \<^verbatim>\<open>DB\<close> panics there), and the row is scanned
  into \<^verbatim>\<open>user.ID\<close>.
\<close>

definition PostgresUserRepository_SaveUser ::
  "('db, 'row) database_sql \<Rightarrow> ptr \<Rightarrow> 'db PostgresUserRepository world \<Rightarrow>
     (error option) outcome \<times> 'db PostgresUserRepository world"
where
  "PostgresUserRepository_SaveUser sql user w =
     (case user of
        Nil \<Rightarrow> (Inl NilDereference, w)
      | Ptr a \<Rightarrow>
          (case DB (recv w) of
             None \<Rightarrow> (Inl NilDereference, w)
           | Some d \<Rightarrow>
               (let u = cells (mem w) a;
                    (row, d') = QueryRow sql insert_query [StrArg (Name u), StrArg (Email u)] d;
                    (i, err) = Scan1 sql row (ID u);
                    h' = (mem w)\<lparr>cells := (cells (mem w))(a := u\<lparr>ID := i\<rparr>)\<rparr>;
                    w' = \<lparr>mem = h', recv = (recv w)\<lparr>DB := Some d'\<rparr>\<rparr>
                in case err of
                     Some er \<Rightarrow> (Inr (Some er), w')
                   | None \<Rightarrow> (Inr None, w'))))"

section \<open>UserRepository and UserService\<close>

text \<open>
  The interface \<^verbatim>\<open>UserRepository\<close>: a value of it carries the two methods of some
  implementation, working on that implementation's state \<open>'s\<close>.
\<close>

record 's UserRepository =
  FindUserByID :: "int \<Rightarrow> 's \<Rightarrow> (ptr \<times> error option) outcome \<times> 's"
  SaveUser :: "ptr \<Rightarrow> 's \<Rightarrow> (error option) outcome \<times> 's"

definition MockUserRepository_as_UserRepository ::
  "(MockUserRepository world) UserRepository"
where
  "MockUserRepository_as_UserRepository =
     \<lparr>FindUserByID = MockUserRepository_FindUserByID,
      SaveUser = MockUserRepository_SaveUser\<rparr>"

definition PostgresUserRepository_as_UserRepository ::
  "('db, 'row) database_sql \<Rightarrow> ('db PostgresUserRepository world) UserRepository"
where
  "PostgresUserRepository_as_UserRepository sql =
     \<lparr>FindUserByID = PostgresUserRepository_FindUserByID sql,
      SaveUser = PostgresUserRepository_SaveUser sql\<rparr>"

text \<open>The struct \<^verbatim>\<open>UserService\<close>; its field \<^verbatim>\<open>Repo\<close> is nil in the zero value, and calling
  a method through a nil interface panics.\<close>

record 's UserService =
  Repo :: "'s UserRepository option"

definition UserService_GetUser ::
  "'s UserService \<Rightarrow> int \<Rightarrow> 's \<Rightarrow> (ptr \<times> error option) outcome \<times> 's"
where
  "UserService_GetUser s uid w =
     (case Repo s of
        None \<Rightarrow> (Inl NilDereference, w)
      | Some r \<Rightarrow> FindUserByID r uid w)"

definition UserService_CreateUser ::
  "'s UserService \<Rightarrow> ptr \<Rightarrow> 's \<Rightarrow> (error option) outcome \<times> 's"
where
  "UserService_CreateUser s user w =
     (case Repo s of
        None \<Rightarrow> (Inl NilDereference, w)
      | Some r \<Rightarrow> SaveUser r user w)"

section \<open>The states of the tests\<close>

text \<open>\<^verbatim>\<open>TestGetUser\<close>: the map holds key 1 with John Doe; the cell is at address 0.\<close>

definition john_doe :: User where
  "john_doe = \<lparr>ID = 1, Name = ''John Doe'', Email = ''john.doe@example.com''\<rparr>"

definition jane_doe :: User where
  "jane_doe = \<lparr>ID = 2, Name = ''Jane Doe'', Email = ''jane.doe@example.com''\<rparr>"

definition zero_User :: User where
  "zero_User = \<lparr>ID = 0, Name = [], Email = []\<rparr>"

definition TestGetUser_world :: "MockUserRepository world" where
  "TestGetUser_world =
     \<lparr>mem = \<lparr>cells = (\<lambda>a. zero_User)(0 := john_doe), next_free = 1\<rparr>,
      recv = \<lparr>Users = Map [1 \<mapsto> Ptr 0], Err = None\<rparr>\<rparr>"

text \<open>\<^verbatim>\<open>TestCreateUser\<close>: the map is empty and Jane Doe's cell is at address 0.\<close>

definition TestCreateUser_world :: "MockUserRepository world" where
  "TestCreateUser_world =
     \<lparr>mem = \<lparr>cells = (\<lambda>a. zero_User)(0 := jane_doe), next_free = 1\<rparr>,
      recv = \<lparr>Users = Map Map.empty, Err = None\<rparr>\<rparr>"

text \<open>
  A repository declared without its map, \<^verbatim>\<open>&MockUserRepository{}\<close>: \<^verbatim>\<open>Users\<close> is the nil
  map. Jane Doe's cell is at address 0.
\<close>

definition zero_Mock_world :: "MockUserRepository world" where
  "zero_Mock_world =
     \<lparr>mem = \<lparr>cells = (\<lambda>a. zero_User)(0 := jane_doe), next_free = 1\<rparr>,
      recv = \<lparr>Users = NilMap, Err = None\<rparr>\<rparr>"

text \<open>The same repository as in \<^verbatim>\<open>TestGetUser\<close> with an error injected.\<close>

definition failing_Mock_world :: "MockUserRepository world" where
  "failing_Mock_world =
     \<lparr>mem = \<lparr>cells = (\<lambda>a. zero_User)(0 := john_doe), next_free = 1\<rparr>,
      recv = \<lparr>Users = Map [1 \<mapsto> Ptr 0], Err = Some (errorString ''boom'')\<rparr>\<rparr>"

text \<open>
  A stand-in for the database of \<^verbatim>\<open>main.go\<close>, to run the relational repository on: its
  state is the last identifier its sequence gave out, its table keeps no rows. The
  INSERT statement gives a row with the next identifier; any other statement gives a
  row that scans to \<^verbatim>\<open>sql.ErrNoRows\<close>. A row that carries an error leaves the
  destinations as they are.
\<close>

definition sequence_db :: "(int, error + int) database_sql" where
  "sequence_db =
     \<lparr>QueryRow = (\<lambda>q args d. if q = insert_query then (Inr (d + 1), d + 1) else (Inl ErrNoRows, d)),
      Scan1 = (\<lambda>row cur. case row of Inl e \<Rightarrow> (cur, Some e) | Inr i \<Rightarrow> (i, None)),
      Scan3 = (\<lambda>row cur. case row of Inl e \<Rightarrow> (cur, Some e) | Inr i \<Rightarrow> ((i, [], []), None))\<rparr>"

text \<open>A database that cannot be reached: every row carries the same error.\<close>

definition unreachable_db :: "(int, error + int) database_sql" where
  "unreachable_db =
     \<lparr>QueryRow = (\<lambda>q args d. (Inl (errorString ''connection refused''), d)),
      Scan1 = (\<lambda>row cur. case row of Inl e \<Rightarrow> (cur, Some e) | Inr i \<Rightarrow> (i, None)),
      Scan3 = (\<lambda>row cur. case row of Inl e \<Rightarrow> (cur, Some e) | Inr i \<Rightarrow> ((i, [], []), None))\<rparr>"

text \<open>\<^verbatim>\<open>main.go\<close> before its first call: \<^verbatim>\<open>newUser\<close> is at address 0 with no identifier yet,
  and the sequence of the database has given out nothing.\<close>

definition alice :: User where
  "alice = \<lparr>ID = 0, Name = ''Alice'', Email = ''alice@example.com''\<rparr>"

definition main_world :: "int PostgresUserRepository world" where
  "main_world =
     \<lparr>mem = \<lparr>cells = (\<lambda>a. zero_User)(0 := alice), next_free = 1\<rparr>,
      recv = NewPostgresUserRepository (Some 0)\<rparr>"

text \<open>
  Every user the in-memory repository holds is filed under its own identifier: a key
  \<open>k\<close> of the map leads to a user whose \<^verbatim>\<open>ID\<close> is \<open>k\<close>. Then two entries never hold the
  same identifier.
\<close>

definition filed_under_own_ID :: "MockUserRepository world \<Rightarrow> bool" where
  "filed_under_own_ID w =
     (\<forall>k a. map_index (Users (recv w)) k = Some (Ptr a) \<longrightarrow> ID (cells (mem w) a) = k)"

section \<open>The in-memory repository\<close>

text \<open>
  Claim C9. \<^verbatim>\<open>MockUserRepository.FindUserByID\<close> only reads: for every identifier and
  every state, the state after the call is the state before it (the map \<^verbatim>\<open>Users\<close>, the
  field \<^verbatim>\<open>Err\<close> and every \<^verbatim>\<open>User\<close> in memory), whichever of its three returns is taken.
\<close>

theorem Mock_FindUserByID_read_only:
  "snd (MockUserRepository_FindUserByID uid w) = w"
  by (simp add: MockUserRepository_FindUserByID_def split: option.split)

text \<open>
  Claim C3. When an error \<open>E\<close> is injected (\<^verbatim>\<open>Err\<close> is not nil), \<^verbatim>\<open>FindUserByID\<close> returns a
  nil user and \<open>E\<close> itself for every identifier, whatever the map holds, and \<^verbatim>\<open>SaveUser\<close>
  returns \<open>E\<close> for every user and leaves the state, the map with it, as it was.
\<close>

theorem Mock_injected_error_returned:
  assumes "Err (recv w) = Some E"
  shows "MockUserRepository_FindUserByID uid w = (Inr (Nil, Some E), w)
       \<and> MockUserRepository_SaveUser user w = (Inr (Some E), w)"
  using assms
  by (simp add: MockUserRepository_FindUserByID_def MockUserRepository_SaveUser_def)

text \<open>An error injected into the repository of \<^verbatim>\<open>TestGetUser\<close>: identifier 1 is in the
  map, and still the injected error comes back.\<close>

theorem Mock_injected_error_returned_witness:
  "Err (recv failing_Mock_world) = Some (errorString ''boom'')
   \<and> map_index (Users (recv failing_Mock_world)) 1 = Some (Ptr 0)
   \<and> MockUserRepository_FindUserByID 1 failing_Mock_world
       = (Inr (Nil, Some (errorString ''boom'')), failing_Mock_world)
   \<and> MockUserRepository_SaveUser (Ptr 0) failing_Mock_world
       = (Inr (Some (errorString ''boom'')), failing_Mock_world)"
proof -
  have e: "Err (recv failing_Mock_world) = Some (errorString ''boom'')"
    by (simp add: failing_Mock_world_def)
  have k: "map_index (Users (recv failing_Mock_world)) 1 = Some (Ptr 0)"
    by (simp add: failing_Mock_world_def)
  from e k Mock_injected_error_returned [OF e, of 1 "Ptr 0"] show ?thesis
    by simp
qed

text \<open>
  Claim C4. With no error injected, \<^verbatim>\<open>FindUserByID\<close> of an identifier that is not a key
  of the map returns a nil user together with the error \<^verbatim>\<open>user not found\<close>.
\<close>

theorem Mock_FindUserByID_absent:
  assumes "Err (recv w) = None" and "uid \<notin> map_keys (Users (recv w))"
  shows "MockUserRepository_FindUserByID uid w
           = (Inr (Nil, Some (errors_New ''user not found'')), w)"
proof (cases "Users (recv w)")
  case NilMap
  with assms show ?thesis
    by (simp add: MockUserRepository_FindUserByID_def)
next
  case (Map f)
  with assms have "f uid = None"
    by (simp add: domIff)
  with assms Map show ?thesis
    by (simp add: MockUserRepository_FindUserByID_def)
qed

text \<open>\<^verbatim>\<open>TestGetUser\<close>, second call: identifier 2 is not in the map.\<close>

theorem Mock_FindUserByID_absent_witness:
  "Err (recv TestGetUser_world) = None
   \<and> 2 \<notin> map_keys (Users (recv TestGetUser_world))
   \<and> MockUserRepository_FindUserByID 2 TestGetUser_world
       = (Inr (Nil, Some (errorString ''user not found'')), TestGetUser_world)"
proof -
  have e: "Err (recv TestGetUser_world) = None"
    by (simp add: TestGetUser_world_def)
  have k: "2 \<notin> map_keys (Users (recv TestGetUser_world))"
    by (simp add: TestGetUser_world_def)
  from e k Mock_FindUserByID_absent [OF e k] show ?thesis
    by (simp add: errors_New_def)
qed

text \<open>
  Claim C10. When \<^verbatim>\<open>Users\<close> is the nil map and no error is injected, \<^verbatim>\<open>SaveUser\<close> of a
  user panics at the assignment to the map, and no argument at all makes it return (a
  nil \<^verbatim>\<open>user\<close> panics one step earlier); \<^verbatim>\<open>FindUserByID\<close> on the same state returns
  \<^verbatim>\<open>user not found\<close> without a panic.
\<close>

theorem Mock_SaveUser_nil_map_panics:
  assumes "Users (recv w) = NilMap" and "Err (recv w) = None"
  shows "MockUserRepository_SaveUser (Ptr a) w = (Inl NilMapAssignment, w)
       \<and> (\<exists>p. fst (MockUserRepository_SaveUser user w) = Inl p)
       \<and> MockUserRepository_FindUserByID uid w
           = (Inr (Nil, Some (errors_New ''user not found'')), w)"
  using assms
  by (cases user)
     (simp_all add: MockUserRepository_SaveUser_def MockUserRepository_FindUserByID_def)

text \<open>The repository declared without its map.\<close>

theorem Mock_SaveUser_nil_map_panics_witness:
  "Users (recv zero_Mock_world) = NilMap \<and> Err (recv zero_Mock_world) = None
   \<and> MockUserRepository_SaveUser (Ptr 0) zero_Mock_world = (Inl NilMapAssignment, zero_Mock_world)
   \<and> MockUserRepository_FindUserByID 2 zero_Mock_world
       = (Inr (Nil, Some (errorString ''user not found'')), zero_Mock_world)"
proof -
  have u: "Users (recv zero_Mock_world) = NilMap"
    by (simp add: zero_Mock_world_def)
  have e: "Err (recv zero_Mock_world) = None"
    by (simp add: zero_Mock_world_def)
  from u e Mock_SaveUser_nil_map_panics [OF u e, of 0 Nil 2] show ?thesis
    by (simp add: errors_New_def)
qed

text \<open>
  Claim C1 speaks of every state with no injected error. The repository declared
  without its map is such a state, and there \<^verbatim>\<open>SaveUser\<close> panics instead of succeeding,
  and a lookup of the same identifier afterwards finds nothing.
\<close>

theorem Mock_SaveUser_then_FindUserByID_counterexample:
  "Err (recv zero_Mock_world) = None
   \<and> cells (mem zero_Mock_world) 0 = jane_doe
   \<and> fst (MockUserRepository_SaveUser (Ptr 0) zero_Mock_world) = Inl NilMapAssignment
   \<and> fst (MockUserRepository_FindUserByID (ID jane_doe)
            (snd (MockUserRepository_SaveUser (Ptr 0) zero_Mock_world)))
       = Inr (Nil, Some (errorString ''user not found''))"
  by (simp add: zero_Mock_world_def jane_doe_def MockUserRepository_SaveUser_def
        MockUserRepository_FindUserByID_def errors_New_def)

text \<open>
  Claim C1, with the map initialised. For every user and every state with no injected
  error whose map \<^verbatim>\<open>Users\<close> is not nil, \<^verbatim>\<open>SaveUser\<close> of the user succeeds, and
  \<^verbatim>\<open>FindUserByID\<close> of the user's \<^verbatim>\<open>ID\<close> on the state after it succeeds and returns the very
  pointer that was saved, whose \<^verbatim>\<open>User\<close> is as it was before the save.
\<close>

theorem Mock_SaveUser_then_FindUserByID:
  assumes "Err (recv w) = None" and "Users (recv w) \<noteq> NilMap"
  shows "fst (MockUserRepository_SaveUser (Ptr a) w) = Inr None
       \<and> MockUserRepository_FindUserByID (ID (cells (mem w) a))
            (snd (MockUserRepository_SaveUser (Ptr a) w))
           = (Inr (Ptr a, None), snd (MockUserRepository_SaveUser (Ptr a) w))
       \<and> cells (mem (snd (MockUserRepository_SaveUser (Ptr a) w))) a = cells (mem w) a"
proof -
  from assms obtain f where f: "Users (recv w) = Map f"
    by (cases "Users (recv w)") simp_all
  with assms show ?thesis
    by (simp add: MockUserRepository_SaveUser_def MockUserRepository_FindUserByID_def)
qed

text \<open>\<^verbatim>\<open>TestCreateUser\<close>: Jane Doe is saved into the empty map and found under 2.\<close>

theorem Mock_SaveUser_then_FindUserByID_witness:
  "Err (recv TestCreateUser_world) = None
   \<and> Users (recv TestCreateUser_world) \<noteq> NilMap
   \<and> cells (mem TestCreateUser_world) 0 = jane_doe
   \<and> fst (MockUserRepository_SaveUser (Ptr 0) TestCreateUser_world) = Inr None
   \<and> fst (MockUserRepository_FindUserByID 2
            (snd (MockUserRepository_SaveUser (Ptr 0) TestCreateUser_world)))
       = Inr (Ptr 0, None)
   \<and> cells (mem (snd (MockUserRepository_SaveUser (Ptr 0) TestCreateUser_world))) 0 = jane_doe"
proof -
  have e: "Err (recv TestCreateUser_world) = None"
    by (simp add: TestCreateUser_world_def)
  have u: "Users (recv TestCreateUser_world) \<noteq> NilMap"
    by (simp add: TestCreateUser_world_def)
  have c: "cells (mem TestCreateUser_world) 0 = jane_doe"
    by (simp add: TestCreateUser_world_def)
  have i: "ID jane_doe = 2"
    by (simp add: jane_doe_def)
  from e u c i Mock_SaveUser_then_FindUserByID [OF e u, of 0] show ?thesis
    by simp
qed

text \<open>
  Claim C8 speaks of every state with no injected error as well. On the repository
  declared without its map \<^verbatim>\<open>SaveUser\<close> does not succeed and the user's identifier leads
  to no entry afterwards.
\<close>

theorem Mock_SaveUser_frame_counterexample:
  "Err (recv zero_Mock_world) = None
   \<and> MockUserRepository_SaveUser (Ptr 0) zero_Mock_world = (Inl NilMapAssignment, zero_Mock_world)
   \<and> map_index (Users (recv (snd (MockUserRepository_SaveUser (Ptr 0) zero_Mock_world))))
        (ID (cells (mem zero_Mock_world) 0)) = None"
  by (simp add: zero_Mock_world_def MockUserRepository_SaveUser_def)

text \<open>
  Claim C8, with the map initialised. For every user and every state with no injected
  error whose map \<^verbatim>\<open>Users\<close> is not nil, \<^verbatim>\<open>SaveUser\<close> succeeds; afterwards the key
  \<^verbatim>\<open>user.ID\<close> leads to the user, every other key leads to what it led to before, the keys
  are those of before and \<^verbatim>\<open>user.ID\<close>, \<^verbatim>\<open>Err\<close> is as before, and the memory is as before:
  the user itself is not modified, its \<^verbatim>\<open>ID\<close> is neither assigned nor changed.
\<close>

theorem Mock_SaveUser_frame:
  assumes "Err (recv w) = None" and "Users (recv w) \<noteq> NilMap"
  shows "fst (MockUserRepository_SaveUser (Ptr a) w) = Inr None
       \<and> map_index (Users (recv (snd (MockUserRepository_SaveUser (Ptr a) w))))
            (ID (cells (mem w) a)) = Some (Ptr a)
       \<and> (\<forall>k. k \<noteq> ID (cells (mem w) a) \<longrightarrow>
             map_index (Users (recv (snd (MockUserRepository_SaveUser (Ptr a) w)))) k
               = map_index (Users (recv w)) k)
       \<and> map_keys (Users (recv (snd (MockUserRepository_SaveUser (Ptr a) w))))
           = insert (ID (cells (mem w) a)) (map_keys (Users (recv w)))
       \<and> Err (recv (snd (MockUserRepository_SaveUser (Ptr a) w))) = Err (recv w)
       \<and> mem (snd (MockUserRepository_SaveUser (Ptr a) w)) = mem w"
proof -
  from assms obtain f where f: "Users (recv w) = Map f"
    by (cases "Users (recv w)") simp_all
  with assms show ?thesis
    by (simp add: MockUserRepository_SaveUser_def)
qed

text \<open>John Doe saved again into the map of \<^verbatim>\<open>TestGetUser\<close>: the entry under 1 is
  overwritten and no entry appears under 2.\<close>

theorem Mock_SaveUser_frame_witness:
  "Err (recv TestGetUser_world) = None
   \<and> Users (recv TestGetUser_world) \<noteq> NilMap
   \<and> ID (cells (mem TestGetUser_world) 0) = 1
   \<and> fst (MockUserRepository_SaveUser (Ptr 0) TestGetUser_world) = Inr None
   \<and> map_index (Users (recv (snd (MockUserRepository_SaveUser (Ptr 0) TestGetUser_world)))) 1
       = Some (Ptr 0)
   \<and> map_index (Users (recv (snd (MockUserRepository_SaveUser (Ptr 0) TestGetUser_world)))) 2
       = None
   \<and> map_keys (Users (recv (snd (MockUserRepository_SaveUser (Ptr 0) TestGetUser_world)))) = {1}
   \<and> mem (snd (MockUserRepository_SaveUser (Ptr 0) TestGetUser_world)) = mem TestGetUser_world"
proof -
  have e: "Err (recv TestGetUser_world) = None"
    by (simp add: TestGetUser_world_def)
  have u: "Users (recv TestGetUser_world) \<noteq> NilMap"
    by (simp add: TestGetUser_world_def)
  have i: "ID (cells (mem TestGetUser_world) 0) = 1"
    by (simp add: TestGetUser_world_def john_doe_def)
  have k: "map_index (Users (recv TestGetUser_world)) 2 = None"
    by (simp add: TestGetUser_world_def)
  have d: "map_keys (Users (recv TestGetUser_world)) = {1}"
    by (simp add: TestGetUser_world_def)
  from e u i k d Mock_SaveUser_frame [OF e u, of 0] show ?thesis
    by simp
qed

section \<open>The service\<close>

text \<open>
  Claim C2. For every repository the service holds, whatever its implementation and its
  state, \<^verbatim>\<open>GetUser\<close> gives what the repository's \<^verbatim>\<open>FindUserByID\<close> gives and \<^verbatim>\<open>CreateUser\<close>
  gives what its \<^verbatim>\<open>SaveUser\<close> gives: the same results and the same state afterwards.
\<close>

theorem UserService_pass_through:
  assumes "Repo s = Some r"
  shows "UserService_GetUser s uid w = FindUserByID r uid w
       \<and> UserService_CreateUser s user w = SaveUser r user w"
  using assms by (simp add: UserService_GetUser_def UserService_CreateUser_def)

text \<open>The calls of \<^verbatim>\<open>TestGetUser\<close> and \<^verbatim>\<open>TestCreateUser\<close> through the service.\<close>

theorem UserService_pass_through_witness:
  "Repo \<lparr>Repo = Some MockUserRepository_as_UserRepository\<rparr>
     = Some MockUserRepository_as_UserRepository
   \<and> UserService_GetUser \<lparr>Repo = Some MockUserRepository_as_UserRepository\<rparr> 1 TestGetUser_world
       = (Inr (Ptr 0, None), TestGetUser_world)
   \<and> UserService_GetUser \<lparr>Repo = Some MockUserRepository_as_UserRepository\<rparr> 2 TestGetUser_world
       = (Inr (Nil, Some (errorString ''user not found'')), TestGetUser_world)
   \<and> fst (UserService_CreateUser \<lparr>Repo = Some MockUserRepository_as_UserRepository\<rparr> (Ptr 0)
            TestCreateUser_world) = Inr None"
proof -
  have r: "Repo \<lparr>Repo = Some MockUserRepository_as_UserRepository\<rparr>
             = Some MockUserRepository_as_UserRepository"
    by simp
  have g1: "MockUserRepository_FindUserByID 1 TestGetUser_world
              = (Inr (Ptr 0, None), TestGetUser_world)"
    by (simp add: MockUserRepository_FindUserByID_def TestGetUser_world_def)
  have g2: "MockUserRepository_FindUserByID 2 TestGetUser_world
              = (Inr (Nil, Some (errorString ''user not found'')), TestGetUser_world)"
    by (simp add: MockUserRepository_FindUserByID_def TestGetUser_world_def errors_New_def)
  have c: "fst (MockUserRepository_SaveUser (Ptr 0) TestCreateUser_world) = Inr None"
    by (simp add: MockUserRepository_SaveUser_def TestCreateUser_world_def)
  from g1 g2 c
    UserService_pass_through [OF r, of 1 TestGetUser_world "Ptr 0"]
    UserService_pass_through [OF r, of 2 TestGetUser_world "Ptr 0"]
    UserService_pass_through [OF r, of 1 TestCreateUser_world "Ptr 0"]
  show ?thesis
    by (simp add: MockUserRepository_as_UserRepository_def)
qed

section \<open>The relational repository\<close>

text \<open>\<^verbatim>\<open>errors.Is\<close> finds \<^verbatim>\<open>sql.ErrNoRows\<close> itself and behind a wrapper, and not in an
  unrelated error, nor in an error that only has the text of \<^verbatim>\<open>sql.ErrNoRows\<close>.\<close>

lemma errors_Is_ErrNoRows_examples:
  "errors_Is_ErrNoRows ErrNoRows"
  "errors_Is_ErrNoRows (wrapError ''lookup failed'' ErrNoRows)"
  "\<not> errors_Is_ErrNoRows (errorString ''connection refused'')"
  "\<not> errors_Is_ErrNoRows (errors_New (Error ErrNoRows))"
  by (simp_all add: errors_New_def)





text \<open>
  Claim C6. \<^verbatim>\<open>SaveUser\<close> of the relational repository returns what the scan of the
  INSERT's row returns, nil or the error itself, and the \<^verbatim>\<open>ID\<close> of the user passed holds
  what the scan put there, so on success the identifier of the row; the other fields of
  the user are as before.
\<close>

theorem Postgres_SaveUser_writes_back:
  assumes "DB (recv w) = Some d"
    and "QueryRow sql insert_query
           [StrArg (Name (cells (mem w) a)), StrArg (Email (cells (mem w) a))] d = (row, d')"
    and "Scan1 sql row (ID (cells (mem w) a)) = (i, err)"
  shows "fst (PostgresUserRepository_SaveUser sql (Ptr a) w) = Inr err
       \<and> cells (mem (snd (PostgresUserRepository_SaveUser sql (Ptr a) w))) a
           = (cells (mem w) a)\<lparr>ID := i\<rparr>
       \<and> ID (cells (mem (snd (PostgresUserRepository_SaveUser sql (Ptr a) w))) a) = i"
  using assms
  by (cases err) (simp_all add: PostgresUserRepository_SaveUser_def)

text \<open>The first call of \<^verbatim>\<open>main.go\<close>: Alice gets identifier 1; against a database that
  cannot be reached the error comes back as it is.\<close>

theorem Postgres_SaveUser_writes_back_witness:
  "DB (recv main_world) = Some 0
   \<and> cells (mem main_world) 0 = alice
   \<and> QueryRow sequence_db insert_query [StrArg ''Alice'', StrArg ''alice@example.com''] 0
       = (Inr 1, 1)
   \<and> Scan1 sequence_db (Inr 1) 0 = (1, None)
   \<and> fst (PostgresUserRepository_SaveUser sequence_db (Ptr 0) main_world) = Inr None
   \<and> ID (cells (mem (snd (PostgresUserRepository_SaveUser sequence_db (Ptr 0) main_world))) 0) = 1
   \<and> QueryRow unreachable_db insert_query [StrArg ''Alice'', StrArg ''alice@example.com''] 0
       = (Inl (errorString ''connection refused''), 0)
   \<and> Scan1 unreachable_db (Inl (errorString ''connection refused'')) 0
       = (0, Some (errorString ''connection refused''))
   \<and> fst (PostgresUserRepository_SaveUser unreachable_db (Ptr 0) main_world)
       = Inr (Some (errorString ''connection refused''))"
proof -
  have d: "DB (recv main_world) = Some 0"
    by (simp add: main_world_def NewPostgresUserRepository_def)
  have c: "cells (mem main_world) 0 = alice"
    by (simp add: main_world_def)
  have n: "Name alice = ''Alice''" "Email alice = ''alice@example.com''" "ID alice = 0"
    by (simp_all add: alice_def)
  have q1: "QueryRow sequence_db insert_query
              [StrArg (Name (cells (mem main_world) 0)), StrArg (Email (cells (mem main_world) 0))] 0
              = (Inr 1, 1)"
    by (simp add: sequence_db_def)
  have s1: "Scan1 sequence_db (Inr 1) (ID (cells (mem main_world) 0)) = (1, None)"
    by (simp add: sequence_db_def)
  have q2: "QueryRow unreachable_db insert_query
              [StrArg (Name (cells (mem main_world) 0)), StrArg (Email (cells (mem main_world) 0))] 0
              = (Inl (errorString ''connection refused''), 0)"
    by (simp add: unreachable_db_def)
  have s2: "Scan1 unreachable_db (Inl (errorString ''connection refused''))
              (ID (cells (mem main_world) 0)) = (0, Some (errorString ''connection refused''))"
    by (simp add: unreachable_db_def c n)
  from d c n q1 s1 q2 s2
    Postgres_SaveUser_writes_back [OF d q1 s1]
    Postgres_SaveUser_writes_back [OF d q2 s2]
  show ?thesis
    by simp
qed

section \<open>Identifiers of persisted users\<close>

text \<open>When every stored user is filed under its own identifier, two entries of the map
  hold users with different identifiers.\<close>

lemma filed_under_own_ID_unique:
  assumes "filed_under_own_ID w"
    and "map_index (Users (recv w)) k1 = Some (Ptr a1)"
    and "map_index (Users (recv w)) k2 = Some (Ptr a2)"
    and "k1 \<noteq> k2"
  shows "ID (cells (mem w) a1) \<noteq> ID (cells (mem w) a2)"
  using assms unfolding filed_under_own_ID_def by blast

text \<open>\<^verbatim>\<open>SaveUser\<close> of the in-memory repository files the user under its own identifier
  and moves no other entry, so the property is kept, whichever branch is taken.\<close>

lemma Mock_SaveUser_filed_under_own_ID:
  assumes "filed_under_own_ID w"
  shows "filed_under_own_ID (snd (MockUserRepository_SaveUser user w))"
proof (cases "Err (recv w)")
  case (Some e)
  with assms show ?thesis
    by (simp add: MockUserRepository_SaveUser_def)
next
  case None
  show ?thesis
  proof (cases user)
    case Nil
    with None assms show ?thesis
      by (simp add: MockUserRepository_SaveUser_def)
  next
    case (Ptr a)
    show ?thesis
    proof (cases "Users (recv w)")
      case NilMap
      with None Ptr assms show ?thesis
        by (simp add: MockUserRepository_SaveUser_def)
    next
      case (Map f)
      from assms Map have old: "\<And>k b. f k = Some (Ptr b) \<Longrightarrow> ID (cells (mem w) b) = k"
        by (simp add: filed_under_own_ID_def)
      from None Ptr Map
      have new: "snd (MockUserRepository_SaveUser user w)
                   = w\<lparr>recv := (recv w)\<lparr>Users := Map (f(ID (cells (mem w) a) \<mapsto> Ptr a))\<rparr>\<rparr>"
        by (simp add: MockUserRepository_SaveUser_def)
      show ?thesis
        unfolding new filed_under_own_ID_def
        by (auto dest: old split: if_splits)
    qed
  qed
qed

text \<open>Neither method of the in-memory repository writes to a \<^verbatim>\<open>User\<close>.\<close>

lemma Mock_operations_keep_memory:
  "mem (snd (MockUserRepository_FindUserByID uid w)) = mem w"
  "mem (snd (MockUserRepository_SaveUser user w)) = mem w"
  by (simp_all add: MockUserRepository_FindUserByID_def MockUserRepository_SaveUser_def
        split: option.split ptr.split gomap.split)

text \<open>\<^verbatim>\<open>FindUserByID\<close> of the relational repository writes to its own new \<^verbatim>\<open>User\<close> only.\<close>

lemma Postgres_FindUserByID_other_cells:
  assumes "b \<noteq> next_free (mem w)"
  shows "cells (mem (snd (PostgresUserRepository_FindUserByID sql uid w))) b = cells (mem w) b"
  using assms
  by (simp add: PostgresUserRepository_FindUserByID_def new_User_def Let_def
        split: option.split prod.split)

text \<open>\<^verbatim>\<open>SaveUser\<close> of the relational repository writes to the \<^verbatim>\<open>User\<close> passed only.\<close>

lemma Postgres_SaveUser_other_cells:
  assumes "Ptr b \<noteq> user"
  shows "cells (mem (snd (PostgresUserRepository_SaveUser sql user w))) b = cells (mem w) b"
  using assms
  by (auto simp add: PostgresUserRepository_SaveUser_def Let_def
        split: option.split prod.split ptr.split)

text \<open>
  Claim C7 says that saving an already persisted user again leaves its identifier as
  first assigned. \<^verbatim>\<open>main.go\<close>'s user, saved through the relational repository, gets
  identifier 1; saved a second time the same way, it is inserted again and its \<^verbatim>\<open>ID\<close> is
  overwritten with 2.
\<close>

theorem Postgres_SaveUser_again_counterexample:
  "ID (cells (mem main_world) 0) = 0
   \<and> fst (PostgresUserRepository_SaveUser sequence_db (Ptr 0) main_world) = Inr None
   \<and> ID (cells (mem (snd (PostgresUserRepository_SaveUser sequence_db (Ptr 0) main_world))) 0) = 1
   \<and> fst (PostgresUserRepository_SaveUser sequence_db (Ptr 0)
            (snd (PostgresUserRepository_SaveUser sequence_db (Ptr 0) main_world))) = Inr None
   \<and> ID (cells (mem (snd (PostgresUserRepository_SaveUser sequence_db (Ptr 0)
            (snd (PostgresUserRepository_SaveUser sequence_db (Ptr 0) main_world))))) 0) = 2"
  by (simp add: PostgresUserRepository_SaveUser_def main_world_def sequence_db_def
        NewPostgresUserRepository_def alice_def)

text \<open>
  Claim C7, as the code has it. No operation of the in-memory repository changes any
  \<^verbatim>\<open>User\<close>, so every identifier stays as it was, and its \<^verbatim>\<open>SaveUser\<close> keeps every stored user
  filed under its own identifier, one entry for each identifier. \<^verbatim>\<open>FindUserByID\<close> of the
  relational repository changes no \<^verbatim>\<open>User\<close> but the new one it returns, and its \<^verbatim>\<open>SaveUser\<close>
  changes no \<^verbatim>\<open>User\<close> but the one passed (whose \<^verbatim>\<open>ID\<close> it overwrites with what the scan of
  the INSERT's row gives, see C6).
\<close>

theorem identifiers_after_operations:
  "mem (snd (MockUserRepository_FindUserByID uid mw)) = mem mw
   \<and> mem (snd (MockUserRepository_SaveUser user mw)) = mem mw
   \<and> (filed_under_own_ID mw \<longrightarrow> filed_under_own_ID (snd (MockUserRepository_SaveUser user mw)))
   \<and> (\<forall>b. b \<noteq> next_free (mem w) \<longrightarrow>
         cells (mem (snd (PostgresUserRepository_FindUserByID sql uid w))) b = cells (mem w) b)
   \<and> (\<forall>b. Ptr b \<noteq> user \<longrightarrow>
         cells (mem (snd (PostgresUserRepository_SaveUser sql user w))) b = cells (mem w) b)"
  by (simp add: Mock_operations_keep_memory Mock_SaveUser_filed_under_own_ID
        Postgres_FindUserByID_other_cells Postgres_SaveUser_other_cells)

text \<open>The repository of \<^verbatim>\<open>TestGetUser\<close> and the state of \<^verbatim>\<open>main.go\<close>.\<close>

theorem identifiers_after_operations_witness:
  "filed_under_own_ID TestGetUser_world
   \<and> filed_under_own_ID (snd (MockUserRepository_SaveUser (Ptr 0) TestGetUser_world))
   \<and> ID (cells (mem (snd (MockUserRepository_SaveUser (Ptr 0) TestGetUser_world))) 0) = 1
   \<and> ID (cells (mem (snd (MockUserRepository_FindUserByID 1 TestGetUser_world))) 0) = 1
   \<and> 0 \<noteq> next_free (mem main_world)
   \<and> cells (mem (snd (PostgresUserRepository_FindUserByID sequence_db 1 main_world))) 0 = alice
   \<and> Ptr 1 \<noteq> Ptr 0
   \<and> cells (mem (snd (PostgresUserRepository_SaveUser sequence_db (Ptr 0) main_world))) 1
       = zero_User"
proof -
  have f: "filed_under_own_ID TestGetUser_world"
    by (simp add: filed_under_own_ID_def TestGetUser_world_def john_doe_def)
  have i: "ID (cells (mem TestGetUser_world) 0) = 1"
    by (simp add: TestGetUser_world_def john_doe_def)
  have n: "0 \<noteq> next_free (mem main_world)"
    by (simp add: main_world_def)
  have c: "cells (mem main_world) 0 = alice" "cells (mem main_world) 1 = zero_User"
    by (simp_all add: main_world_def)
  have p: "Ptr 1 \<noteq> Ptr 0"
    by simp
  from f i n c p
    identifiers_after_operations [where uid = 1 and mw = TestGetUser_world and user = "Ptr 0"
      and w = main_world and sql = sequence_db]
  show ?thesis
    by simp
qed

end
